theory Spec2Isabelle
  imports Main "HOL-Library.Word"
begin

section \<open>Remediation documents\<close>

text \<open>
  Modelled from the spec: the types of the remediation document are declared outside
  \<^verbatim>\<open>idx.go\<close> and \<^verbatim>\<open>reset_password.go\<close>. They have the fields those two files read
  (\<^verbatim>\<open>FormValues\<close>, \<^verbatim>\<open>Form\<close>, \<^verbatim>\<open>Name\<close>, \<^verbatim>\<open>Value\<close>, \<^verbatim>\<open>Label\<close>, \<^verbatim>\<open>CancelResponse\<close>,
  \<^verbatim>\<open>SuccessResponse\<close>, \<^verbatim>\<open>Messages.Values\<close>, \<^verbatim>\<open>CurrentAuthenticatorEnrollment.Value.Recover\<close>)
  and the option name and submission target of the specification's data model. A Go
  pointer that the code compares with \<^verbatim>\<open>nil\<close> is an \<open>option\<close>.
\<close>

datatype FormValue =
  FormValue (Name: string) (Label: string) (Value: string) (Form: "FormValue list option")

record RemediationOption =
  ro_Name :: string
  ro_Href :: string
  FormValues :: "FormValue list"

record Message =
  Values :: "string list"

datatype SuccessOption = SuccessOption (so_Href: string)

datatype Token = Token string

datatype ErrorResponse = ErrorResponse string

record CurrentAuthenticatorEnrollment =
  Recover :: RemediationOption

record Response =
  Remediation :: "RemediationOption list"
  CancelResponse :: "RemediationOption option"
  SuccessResponse :: "SuccessOption option"
  Messages :: "Message option"
  CurrentAuthenticatorEnrollment :: "CurrentAuthenticatorEnrollment option"

section \<open>Errors\<close>

text \<open>
  Every \<^verbatim>\<open>fmt.Errorf\<close> of the two files is a constructor; \<open>Wrapped\<close> is
  \<^verbatim>\<open>fmt.Errorf("...: %w", err)\<close>. \<open>External\<close> is an error of the standard library, the
  transport or the provider, known by its text only. \<open>NilPointerDereference\<close> is the
  run-time panic of reading a field through a nil pointer: it is no error value of the
  program, the call does not return.
\<close>

datatype error =
    StepNotAvailable "string list"
  | EnrollmentMissing "string list option"
  | NoMoreSteps "string list"
  | OptionNotFound string
  | AuthenticatorNotFound string
  | Wrapped string error
  | External string
  | ProviderError ErrorResponse
  | NilPointerDereference

section \<open>Client, session context, transport\<close>

record config =
  ClientID :: string
  IDX_ClientSecret :: string
  Scopes :: "string list"
  RedirectURI :: string
  Issuer :: string

text \<open>
  A \<^verbatim>\<open>Client\<close> built by \<^verbatim>\<open>NewClient\<close> has a configuration and a transport; the
  transport's behaviour is part of the environment below. The package variable
  \<^verbatim>\<open>idx\<close> is the client \<^verbatim>\<open>NewClient\<close> built last and is passed to the operations
  that read it.
\<close>

record Client =
  config :: config

definition ClientSecret :: "Client \<Rightarrow> string" where
  "ClientSecret c = IDX_ClientSecret (config c)"

record InteractionHandle =
  InteractionHandle :: string

record Context =
  codeVerifier :: string
  interactionHandle :: "InteractionHandle option"
  state :: string

definition CodeVerifier :: "Context \<Rightarrow> string" where
  "CodeVerifier ictx = codeVerifier ictx"

definition State :: "Context \<Rightarrow> string" where
  "State ictx = state ictx"

definition packageVersion :: string where
  "packageVersion = ''0.1.0-beta.2''"

datatype body = FormBody "string \<rightharpoonup> string" | RawBody string

record http_request =
  req_method :: string
  req_url :: string
  req_header :: "(string \<times> string) list"
  req_body :: body

record http_response =
  StatusCode :: int
  Body :: "error + string"

text \<open>
  Every exchange with the provider is recorded: a request handed to the transport's
  \<^verbatim>\<open>Do\<close>, or a call of \<^verbatim>\<open>Proceed\<close>, \<^verbatim>\<open>Cancel\<close> or \<^verbatim>\<open>ExchangeCode\<close>, which are
  defined outside the two files.
\<close>

datatype call =
    DoCall http_request
  | ProceedCall RemediationOption string
  | CancelCall Response
  | ExchangeCodeCall SuccessOption string

record world =
  calls :: "call list"
  rand_reads :: nat

text \<open>
  The environment is what the two files call and do not define: the random source,
  SHA-256 (the error of writing bytes to the hash, and the digest of the bytes written),
  URL parsing and request construction, the JSON codec, \<^verbatim>\<open>strings.TrimSpace\<close>,
  the user agent text, \<^verbatim>\<open>IsIdentityFirst\<close>, and the provider, whose answer to a call may
  depend on all the calls made before it. \<open>crand_Read E k\<close> is the \<open>k\<close>-th read of
  the random source: its error when it fails, otherwise the byte it puts at each index
  of the buffer.
\<close>

record env =
  crand_Read :: "nat \<Rightarrow> error + (nat \<Rightarrow> 8 word)"
  sha256_Write :: "8 word list \<Rightarrow> error option"
  sha256_Sum :: "8 word list \<Rightarrow> 8 word list"
  url_Parse :: "string \<Rightarrow> error + (string \<times> string)"
  NewRequest_error :: "string \<Rightarrow> string \<Rightarrow> error option"
  user_agent :: "string \<Rightarrow> string"
  http_Do :: "call list \<Rightarrow> http_request \<Rightarrow> error + http_response"
  Unmarshal_ErrorResponse :: "string \<Rightarrow> error + ErrorResponse"
  Unmarshal_interactionHandle :: "string \<Rightarrow> error + string"
  Unmarshal_Response :: "string \<Rightarrow> error + Response"
  Marshal_InteractionHandle :: "InteractionHandle option \<Rightarrow> error + string"
  Marshal_IdentifyRequest :: "string \<times> bool \<Rightarrow> string"
  TrimSpace :: "string \<Rightarrow> string"
  IsIdentityFirst :: "RemediationOption \<Rightarrow> error + bool"
  Proceed_reply :: "call list \<Rightarrow> RemediationOption \<Rightarrow> string \<Rightarrow> error + Response"
  Cancel_reply :: "call list \<Rightarrow> Response \<Rightarrow> error + Response"
  ExchangeCode_reply :: "call list \<Rightarrow> SuccessOption \<Rightarrow> string \<Rightarrow> error + Token"

definition Do :: "env \<Rightarrow> http_request \<Rightarrow> world \<Rightarrow> (error + http_response) \<times> world" where
  "Do E req w = (http_Do E (calls w) req, w\<lparr>calls := calls w @ [DoCall req]\<rparr>)"

text \<open>
  Modelled from the spec: \<^verbatim>\<open>Proceed\<close>, \<^verbatim>\<open>Cancel\<close> and \<^verbatim>\<open>ExchangeCode\<close> are
  missing from the source files. Proceed "submits payload as the JSON body to the option's
  submission target; the returned document becomes the flow's new state"; Cancel is "the
  document's cancel transition"; the token exchange returns the token. Each is one
  recorded call answered by the provider.
\<close>

definition Proceed :: "env \<Rightarrow> RemediationOption \<Rightarrow> string \<Rightarrow> world \<Rightarrow> (error + Response) \<times> world" where
  "Proceed E ro data w = (Proceed_reply E (calls w) ro data, w\<lparr>calls := calls w @ [ProceedCall ro data]\<rparr>)"

definition Cancel_Response :: "env \<Rightarrow> Response \<Rightarrow> world \<Rightarrow> (error + Response) \<times> world" where
  "Cancel_Response E resp w = (Cancel_reply E (calls w) resp, w\<lparr>calls := calls w @ [CancelCall resp]\<rparr>)"

definition ExchangeCode :: "env \<Rightarrow> SuccessOption \<Rightarrow> string \<Rightarrow> world \<Rightarrow> (error + Token) \<times> world" where
  "ExchangeCode E so data w =
     (ExchangeCode_reply E (calls w) so data, w\<lparr>calls := calls w @ [ExchangeCodeCall so data]\<rparr>)"

section \<open>Remediation navigator\<close>

text \<open>
  Modelled from the spec: \<^verbatim>\<open>remediationOption\<close>, \<^verbatim>\<open>getRemediationOption\<close>,
  \<^verbatim>\<open>authenticatorOption\<close> and \<^verbatim>\<open>LoginSuccess\<close> are missing from the source files.
  remediationOption "returns the RemediationOption with that name or fails with a
  not found condition" (the specification has one lookup by name, so both names are
  that lookup); authenticatorOption "locates the named option, then scans its nested
  authenticator-selection forms for one whose label matches, returning both the option
  and the matched authenticator's machine identifier. Fails if either the option or the
  matching nested authenticator is absent"; the login-success predicate is the presence
  of the success marker.
\<close>

fun find_option :: "string \<Rightarrow> RemediationOption list \<Rightarrow> RemediationOption option" where
  "find_option n [] = None"
| "find_option n (ro # ros) = (if ro_Name ro = n then Some ro else find_option n ros)"

definition remediationOption :: "Response \<Rightarrow> string \<Rightarrow> error + RemediationOption" where
  "remediationOption resp optionName =
     (case find_option optionName (Remediation resp) of
        None \<Rightarrow> Inl (OptionNotFound optionName)
      | Some ro \<Rightarrow> Inr ro)"

definition getRemediationOption :: "Response \<Rightarrow> string \<Rightarrow> error + RemediationOption" where
  "getRemediationOption resp optionName = remediationOption resp optionName"

fun find_label :: "string \<Rightarrow> FormValue list \<Rightarrow> FormValue option" where
  "find_label l [] = None"
| "find_label l (f # fs) = (if Label f = l then Some f else find_label l fs)"

fun find_authenticator :: "string \<Rightarrow> FormValue list \<Rightarrow> FormValue option" where
  "find_authenticator l [] = None"
| "find_authenticator l (v # vs) =
     (case Form v of
        None \<Rightarrow> find_authenticator l vs
      | Some fvs \<Rightarrow>
          (case find_label l fvs of
             None \<Rightarrow> find_authenticator l vs
           | Some f \<Rightarrow> Some f))"

definition authenticatorOption ::
  "Response \<Rightarrow> string \<Rightarrow> string \<Rightarrow> error + (RemediationOption \<times> string)" where
  "authenticatorOption resp optionName label =
     (case remediationOption resp optionName of
        Inl e \<Rightarrow> Inl e
      | Inr ro \<Rightarrow>
          (case find_authenticator label (FormValues ro) of
             None \<Rightarrow> Inl (AuthenticatorNotFound label)
           | Some f \<Rightarrow> Inr (ro, Value f)))"

definition LoginSuccess :: "Response \<Rightarrow> bool" where
  "LoginSuccess resp = (SuccessResponse resp \<noteq> None)"

section \<open>Session: interaction and introspection\<close>

text \<open>
  \<^verbatim>\<open>base64.RawURLEncoding.EncodeToString\<close> of the Go standard library: three bytes
  make a 24-bit value read as four 6-bit indices into the URL-safe alphabet; one or two
  remaining bytes give two or three characters, and no padding is written.
\<close>

definition encodeURL :: string where
  "encodeURL = ''ABCDEFGHIJKLMNOPQRSTUVWXYZabcdefghijklmnopqrstuvwxyz0123456789-_''"

definition enc6 :: "nat \<Rightarrow> char" where
  "enc6 v = encodeURL ! (v mod 64)"

fun EncodeToString :: "8 word list \<Rightarrow> string" where
  "EncodeToString (a # b # c # src) =
     (let val = unat a * 65536 + unat b * 256 + unat c
      in enc6 (val div 262144) # enc6 (val div 4096) # enc6 (val div 64) # enc6 val
         # EncodeToString src)"
| "EncodeToString [a, b] =
     (let val = unat a * 65536 + unat b * 256
      in [enc6 (val div 262144), enc6 (val div 4096), enc6 (val div 64)])"
| "EncodeToString [a] =
     (let val = unat a * 65536
      in [enc6 (val div 262144), enc6 (val div 4096)])"
| "EncodeToString [] = []"

text \<open>\<^verbatim>\<open>crand.Read(buf)\<close> on a buffer of \<open>n\<close> bytes made by \<^verbatim>\<open>make([]byte, n)\<close>.\<close>

definition crand_Read_buf :: "env \<Rightarrow> nat \<Rightarrow> world \<Rightarrow> (error + 8 word list) \<times> world" where
  "crand_Read_buf E n w =
     ((case crand_Read E (rand_reads w) of
         Inl e \<Rightarrow> Inl e
       | Inr f \<Rightarrow> Inr (map f [0..<n])),
      w\<lparr>rand_reads := Suc (rand_reads w)\<rparr>)"

definition createCodeVerifier :: "env \<Rightarrow> world \<Rightarrow> (error + string) \<times> world" where
  "createCodeVerifier E w =
     (case crand_Read_buf E 86 w of
        (Inl e, w1) \<Rightarrow> (Inl (Wrapped ''error creating code_verifier'' e), w1)
      | (Inr buf, w1) \<Rightarrow> (Inr (EncodeToString buf), w1))"

definition createState :: "env \<Rightarrow> world \<Rightarrow> (error + string) \<times> world" where
  "createState E w =
     (case crand_Read_buf E 16 w of
        (Inl e, w1) \<Rightarrow> (Inl (Wrapped ''error creating state'' e), w1)
      | (Inr buf, w1) \<Rightarrow> (Inr (EncodeToString buf), w1))"

definition unmarshalResponse :: "env \<Rightarrow> (string \<Rightarrow> error + 'a) \<Rightarrow> http_response \<Rightarrow> error + 'a" where
  "unmarshalResponse E unmarshal r =
     (case Body r of
        Inl e \<Rightarrow> Inl (Wrapped ''failed to read response body'' e)
      | Inr body \<Rightarrow>
          if StatusCode r \<noteq> 200 then
            (case Unmarshal_ErrorResponse E body of
               Inl e \<Rightarrow> Inl (Wrapped ''failed to unmarshal response body'' e)
             | Inr respErr \<Rightarrow> Inl (ProviderError respErr))
          else
            (case unmarshal body of
               Inl e \<Rightarrow> Inl (Wrapped ''failed to unmarshal response body'' e)
             | Inr i \<Rightarrow> Inr i))"

definition NewRequest :: "env \<Rightarrow> string \<Rightarrow> string \<Rightarrow> body \<Rightarrow> error + http_request" where
  "NewRequest E m u b =
     (case NewRequest_error E m u of
        Some e \<Rightarrow> Inl e
      | None \<Rightarrow> Inr \<lparr>req_method = m, req_url = u, req_header = [], req_body = b\<rparr>)"

definition Header_Add :: "http_request \<Rightarrow> string \<Rightarrow> string \<Rightarrow> http_request" where
  "Header_Add req k v = req\<lparr>req_header := req_header req @ [(k, v)]\<rparr>"

text \<open>
  \<^verbatim>\<open>oktahttp.WithOktaUserAgent\<close> is defined outside the two files; by the comment on
  \<^verbatim>\<open>packageVersion\<close> it sets the user agent from the version.
\<close>

definition WithOktaUserAgent :: "env \<Rightarrow> http_request \<Rightarrow> string \<Rightarrow> http_request" where
  "WithOktaUserAgent E req version = Header_Add req ''User-Agent'' (user_agent E version)"

fun Join :: "string list \<Rightarrow> string \<Rightarrow> string" where
  "Join [] sep = []"
| "Join [x] sep = x"
| "Join (x # y # xs) sep = x @ sep @ Join (y # xs) sep"

text \<open>
  \<^verbatim>\<open>Interact\<close>. The hash is new, so \<^verbatim>\<open>h.Write\<close> followed by \<^verbatim>\<open>h.Sum(nil)\<close> is
  \<open>sha256_Sum\<close> of the verifier's bytes; the test of the error of \<^verbatim>\<open>Write\<close> is kept,
  though a hash of the standard library never returns one. The form is kept as the map
  \<^verbatim>\<open>data.Encode()\<close> serialises.
\<close>

definition interact_data :: "Client \<Rightarrow> string \<Rightarrow> string \<Rightarrow> string \<rightharpoonup> string" where
  "interact_data c codeChallenge st =
     [''client_id'' \<mapsto> ClientID (config c),
      ''scope'' \<mapsto> Join (Scopes (config c)) '' '',
      ''code_challenge'' \<mapsto> codeChallenge,
      ''code_challenge_method'' \<mapsto> ''S256'',
      ''redirect_uri'' \<mapsto> RedirectURI (config c),
      ''state'' \<mapsto> st]"

definition Interact :: "env \<Rightarrow> Client \<Rightarrow> world \<Rightarrow> (error + Context) \<times> world" where
  "Interact E c w =
     (case createCodeVerifier E w of
        (Inl e, w1) \<Rightarrow> (Inl e, w1)
      | (Inr cv, w1) \<Rightarrow>
     (case createState E w1 of
        (Inl e, w2) \<Rightarrow> (Inl e, w2)
      | (Inr st, w2) \<Rightarrow>
     (let idxContext = \<lparr>codeVerifier = cv, interactionHandle = None, state = st\<rparr>
      in
     (case sha256_Write E (map of_char (CodeVerifier idxContext)) of
        Some e \<Rightarrow> (Inl (Wrapped ''failed to write codeVerifier'' e), w2)
      | None \<Rightarrow>
     (let codeChallenge = EncodeToString (sha256_Sum E (map of_char (CodeVerifier idxContext)));
          data = interact_data c codeChallenge (State idxContext);
          endpoint = Issuer (config c) @ ''/v1/interact''
      in
     (case NewRequest E ''POST'' endpoint (FormBody data) of
        Inl e \<Rightarrow> (Inl (Wrapped ''failed to create interact http request'' e), w2)
      | Inr req0 \<Rightarrow>
     (let req = WithOktaUserAgent E
                  (Header_Add req0 ''Content-Type'' ''application/x-www-form-urlencoded'')
                  packageVersion
      in
     (case Do E req w2 of
        (Inl e, w3) \<Rightarrow> (Inl (Wrapped ''http call has failed'' e), w3)
      | (Inr resp, w3) \<Rightarrow>
     (case unmarshalResponse E (Unmarshal_interactionHandle E) resp of
        Inl e \<Rightarrow> (Inl e, w3)
      | Inr h \<Rightarrow>
          (Inr (idxContext\<lparr>interactionHandle := Some \<lparr>InteractionHandle = h\<rparr>\<rparr>), w3))))))))))"

definition Introspect :: "env \<Rightarrow> Client \<Rightarrow> Context option \<Rightarrow> world \<Rightarrow> (error + Response) \<times> world" where
  "Introspect E c idxContext w =
     (case url_Parse E (Issuer (config c)) of
        Inl e \<Rightarrow> (Inl (Wrapped ''could not parse issuer'' e), w)
      | Inr (scheme, host) \<Rightarrow>
     (case (case idxContext of
              Some ictx \<Rightarrow> (Inr ictx, w)
            | None \<Rightarrow>
                (case Interact E c w of
                   (Inl e, w1) \<Rightarrow>
                     (Inl (Wrapped ''could not retrieve an interaction handle for you'' e), w1)
                 | (Inr ictx, w1) \<Rightarrow> (Inr ictx, w1))) of
        (Inl e, w1) \<Rightarrow> (Inl e, w1)
      | (Inr ictx, w1) \<Rightarrow>
     (case Marshal_InteractionHandle E (interactionHandle ictx) of
        Inl e \<Rightarrow> (Inl (Wrapped ''failed to marshal interaction handle'' e), w1)
      | Inr body \<Rightarrow>
     (case NewRequest E ''POST'' (scheme @ ''://'' @ host @ ''/idp/idx/introspect'') (RawBody body) of
        Inl e \<Rightarrow> (Inl (Wrapped ''failed to create introspect http request'' e), w1)
      | Inr req0 \<Rightarrow>
     (let req = WithOktaUserAgent E
                  (Header_Add
                     (Header_Add req0 ''Content-Type'' ''application/ion+json; okta-version=1.0.0'')
                     ''Accept'' ''application/ion+json; okta-version=1.0.0'')
                  packageVersion
      in
     (case Do E req w1 of
        (Inl e, w2) \<Rightarrow> (Inl (Wrapped ''http call has failed'' e), w2)
      | (Inr resp, w2) \<Rightarrow>
     (case unmarshalResponse E (Unmarshal_Response E) resp of
        Inl e \<Rightarrow> (Inl e, w2)
      | Inr idxResponse \<Rightarrow> (Inr idxResponse, w2))))))))"

section \<open>Password reset: the response object and its steps\<close>

type_synonym ResetPasswordStep = int

definition ResetPasswordStepEmailVerification :: ResetPasswordStep where
  "ResetPasswordStepEmailVerification = 1"

definition ResetPasswordStepEmailConfirmation :: ResetPasswordStep where
  "ResetPasswordStepEmailConfirmation = 2"

definition ResetPasswordStepAnswerSecurityQuestion :: ResetPasswordStep where
  "ResetPasswordStepAnswerSecurityQuestion = 3"

definition ResetPasswordStepNewPassword :: ResetPasswordStep where
  "ResetPasswordStepNewPassword = 4"

definition ResetPasswordStepCancel :: ResetPasswordStep where
  "ResetPasswordStepCancel = 5"

definition ResetPasswordStepSkip :: ResetPasswordStep where
  "ResetPasswordStepSkip = 6"

definition ResetPasswordStepSuccess :: ResetPasswordStep where
  "ResetPasswordStepSuccess = 7"

definition resetStepText :: "ResetPasswordStep \<rightharpoonup> string" where
  "resetStepText =
     [ResetPasswordStepEmailVerification \<mapsto> ''EMAIL_VERIFICATION'',
      ResetPasswordStepEmailConfirmation \<mapsto> ''EMAIL_CONFIRMATION'',
      ResetPasswordStepAnswerSecurityQuestion \<mapsto> ''ANSWER SECURITY_QUESTION'',
      ResetPasswordStepNewPassword \<mapsto> ''NEW_PASSWORD'',
      ResetPasswordStepCancel \<mapsto> ''CANCEL'',
      ResetPasswordStepSkip \<mapsto> ''SKIP'',
      ResetPasswordStepSuccess \<mapsto> ''SUCCESS'']"

definition String :: "ResetPasswordStep \<Rightarrow> string" where
  "String s = (case resetStepText s of Some v \<Rightarrow> v | None \<Rightarrow> ''UNKNOWN'')"

record SecurityQuestion =
  QuestionKey :: string
  Question :: string

record IdentifyRequest =
  Identifier :: string
  RememberMe :: bool

record ResetPasswordResponse =
  idxContext :: "Context option"
  token :: "Token option"
  availableSteps :: "ResetPasswordStep list"
  sq :: "SecurityQuestion option"

definition AvailableSteps :: "ResetPasswordResponse \<Rightarrow> ResetPasswordStep list" where
  "AvailableSteps r = availableSteps r"

fun HasStep_loop :: "ResetPasswordStep list \<Rightarrow> ResetPasswordStep \<Rightarrow> bool" where
  "HasStep_loop [] s = False"
| "HasStep_loop (x # xs) s = (if x = s then True else HasStep_loop xs s)"

definition HasStep :: "ResetPasswordResponse \<Rightarrow> ResetPasswordStep \<Rightarrow> bool" where
  "HasStep r s = HasStep_loop (availableSteps r) s"

definition IsAuthenticated :: "ResetPasswordResponse \<Rightarrow> bool" where
  "IsAuthenticated r = HasStep r ResetPasswordStepSuccess"

text \<open>
  The error of a transition whose step is not available:
  \<^verbatim>\<open>fmt.Errorf("this step is not available, please try one of %s", r.AvailableSteps())\<close>,
  which prints each available step through \<open>String\<close>.
\<close>

definition step_not_available :: "ResetPasswordResponse \<Rightarrow> error" where
  "step_not_available r = StepNotAvailable (map String (AvailableSteps r))"

section \<open>Password reset: payloads\<close>

definition tabs :: "nat \<Rightarrow> string" where
  "tabs n = replicate n (CHR 0x09)"

definition exchangeForm :: "string \<Rightarrow> string \<Rightarrow> string" where
  \<open>exchangeForm secret verifier =
     ''{\<newline>'' @ tabs 3 @ ''"client_secret": "'' @ secret @ ''",\<newline>'' @
     tabs 3 @ ''"code_verifier": "'' @ verifier @ ''"\<newline>'' @ tabs 2 @ ''}''\<close>

definition authenticator_payload :: "string \<Rightarrow> string" where
  \<open>authenticator_payload authID =
     ''{\<newline>'' @ tabs 4 @ ''"authenticator": {\<newline>'' @
     tabs 5 @ ''"id": "'' @ authID @ ''"\<newline>'' @
     tabs 4 @ ''}\<newline>'' @ tabs 3 @ ''}''\<close>

definition answer_credentials :: "string \<Rightarrow> string \<Rightarrow> string" where
  \<open>answer_credentials questionKey answer =
     ''{\<newline>'' @ tabs 4 @ ''"credentials": {\<newline>'' @
     tabs 5 @ ''"questionKey": "'' @ questionKey @ ''",\<newline>'' @
     tabs 5 @ ''"answer": "'' @ answer @ ''"\<newline>'' @
     tabs 4 @ ''}\<newline>'' @ tabs 3 @ ''}''\<close>

definition password_credentials :: "string \<Rightarrow> string" where
  \<open>password_credentials passcode =
     ''{\<newline>'' @ tabs 2 @ ''"credentials": {\<newline>'' @
     tabs 3 @ ''"passcode": "'' @ passcode @ ''"\<newline>'' @
     tabs 2 @ ''}\<newline>'' @ tabs 1 @ ''}''\<close>

definition code_credentials :: "string \<Rightarrow> string" where
  \<open>code_credentials passcode =
     ''{\<newline>'' @ tabs 4 @ ''"credentials": {\<newline>'' @
     tabs 5 @ ''"passcode": "'' @ passcode @ ''"\<newline>'' @
     tabs 4 @ ''}\<newline>'' @ tabs 3 @ ''}''\<close>

section \<open>Password reset: recomputing the steps\<close>

text \<open>
  The two labelled loops of \<^verbatim>\<open>setupNextSteps\<close>: the inner loop over the fields of a
  nested form stops at the first field the test accepts, the outer loop over the option's
  form values skips a value without a non-empty nested form and stops with the inner one.
\<close>

fun find_field :: "(FormValue \<Rightarrow> bool) \<Rightarrow> FormValue list \<Rightarrow> FormValue option" where
  "find_field p [] = None"
| "find_field p (f # fs) = (if p f then Some f else find_field p fs)"

fun find_in_forms :: "(FormValue \<Rightarrow> bool) \<Rightarrow> FormValue list \<Rightarrow> FormValue option" where
  "find_in_forms p [] = None"
| "find_in_forms p (v # vs) =
     (case Form v of
        None \<Rightarrow> find_in_forms p vs
      | Some fvs \<Rightarrow>
          if length fvs > 0 then
            (case find_field p fvs of
               Some f \<Rightarrow> Some f
             | None \<Rightarrow> find_in_forms p vs)
          else find_in_forms p vs)"

text \<open>
  The part of \<^verbatim>\<open>setupNextSteps\<close> after the success branch, without the final test:
  the steps found in the document, in the order the code appends them, and the cached
  security question, which the challenge loop overwrites when it finds a question key.
\<close>

definition probe_steps ::
  "SecurityQuestion option \<Rightarrow> Response \<Rightarrow> ResetPasswordStep list \<times> SecurityQuestion option" where
  "probe_steps q resp =
     (let steps0 = [];
          steps1 = (if CancelResponse resp \<noteq> None then steps0 @ [ResetPasswordStepCancel]
                    else steps0);
          steps2 = (case authenticatorOption resp ''select-authenticator-authenticate'' ''Email'' of
                      Inr _ \<Rightarrow> steps1 @ [ResetPasswordStepEmailVerification]
                    | Inl _ \<Rightarrow> steps1);
          steps3 = (case remediationOption resp ''skip'' of
                      Inr _ \<Rightarrow> steps2 @ [ResetPasswordStepSkip]
                    | Inl _ \<Rightarrow> steps2);
          (steps4, q') =
             (case remediationOption resp ''challenge-authenticator'' of
                Inl _ \<Rightarrow> (steps3, q)
              | Inr ro \<Rightarrow>
                  (case find_in_forms (\<lambda>f. Name f = ''questionKey'') (FormValues ro) of
                     None \<Rightarrow> (steps3, q)
                   | Some f \<Rightarrow>
                       (steps3 @ [ResetPasswordStepAnswerSecurityQuestion],
                        Some \<lparr>QuestionKey = Value f, Question = Label f\<rparr>)));
          steps5 =
             (case remediationOption resp ''reset-authenticator'' of
                Inl _ \<Rightarrow> steps4
              | Inr ro \<Rightarrow>
                  (case find_in_forms (\<lambda>f. Label f = ''New password'') (FormValues ro) of
                     None \<Rightarrow> steps4
                   | Some f \<Rightarrow> steps4 @ [ResetPasswordStepNewPassword]))
      in (steps5, q'))"

text \<open>
  \<^verbatim>\<open>setupNextSteps\<close> returns its error (\<open>None\<close> for \<^verbatim>\<open>nil\<close>), the response object
  as the call leaves it, and the world. \<^verbatim>\<open>r.idxContext.CodeVerifier()\<close> and
  \<^verbatim>\<open>resp.Messages.Values\<close> read through a pointer: where it is nil the call panics.
\<close>

definition setupNextSteps ::
  "env \<Rightarrow> Client \<Rightarrow> ResetPasswordResponse \<Rightarrow> Response \<Rightarrow> world
     \<Rightarrow> error option \<times> ResetPasswordResponse \<times> world" where
  "setupNextSteps E idx r resp w =
     (if LoginSuccess resp then
        (case idxContext r of
           None \<Rightarrow> (Some NilPointerDereference, r, w)
         | Some ictx \<Rightarrow>
        (case SuccessResponse resp of
           None \<Rightarrow> (Some NilPointerDereference, r, w)
         | Some so \<Rightarrow>
        (case ExchangeCode E so (exchangeForm (ClientSecret idx) (CodeVerifier ictx)) w of
           (Inl err, w1) \<Rightarrow> (Some err, r, w1)
         | (Inr tokens, w1) \<Rightarrow>
             (None, r\<lparr>token := Some tokens, availableSteps := [ResetPasswordStepSuccess]\<rparr>, w1))))
      else
        (case probe_steps (sq r) resp of
           (steps, q) \<Rightarrow>
             if length steps = 0 then
               (case Messages resp of
                  None \<Rightarrow> (Some NilPointerDereference, r\<lparr>sq := q\<rparr>, w)
                | Some m \<Rightarrow> (Some (NoMoreSteps (Values m)), r\<lparr>sq := q\<rparr>, w))
             else (None, r\<lparr>sq := q, availableSteps := steps\<rparr>, w)))"

section \<open>Password reset: transitions\<close>

text \<open>
  A transition returns its error (\<open>None\<close> when it returns the response object
  itself), the response object as the call leaves it, since the caller still holds the
  pointer after an error, and the world.
\<close>

definition enrollment_missing :: "Response \<Rightarrow> error" where
  "enrollment_missing resp =
     (case Messages resp of
        Some m \<Rightarrow> EnrollmentMissing (Some (Values m))
      | None \<Rightarrow> EnrollmentMissing None)"

definition InitPasswordReset ::
  "env \<Rightarrow> Client \<Rightarrow> Client \<Rightarrow> IdentifyRequest \<Rightarrow> world
     \<Rightarrow> (error + ResetPasswordResponse) \<times> world" where
  "InitPasswordReset E c idx ir w =
     (case Interact E c w of
        (Inl err, w1) \<Rightarrow> (Inl err, w1)
      | (Inr ictx, w1) \<Rightarrow>
     (case Introspect E c (Some ictx) w1 of
        (Inl err, w2) \<Rightarrow> (Inl err, w2)
      | (Inr resp, w2) \<Rightarrow>
     (case remediationOption resp ''identify'' of
        Inl err \<Rightarrow> (Inl err, w2)
      | Inr ro \<Rightarrow>
     (case Proceed E ro (Marshal_IdentifyRequest E (Identifier ir, RememberMe ir)) w2 of
        (Inl err, w3) \<Rightarrow> (Inl err, w3)
      | (Inr resp2, w3) \<Rightarrow>
     (case CurrentAuthenticatorEnrollment resp2 of
        None \<Rightarrow> (Inl (enrollment_missing resp2), w3)
      | Some cae \<Rightarrow>
     (case Proceed E (Recover cae) [] w3 of
        (Inl err, w4) \<Rightarrow> (Inl err, w4)
      | (Inr resp3, w4) \<Rightarrow>
     (case setupNextSteps E idx
             \<lparr>idxContext = Some ictx, token = None, availableSteps = [], sq = None\<rparr> resp3 w4 of
        (Some err, rpr, w5) \<Rightarrow> (Inl err, w5)
      | (None, rpr, w5) \<Rightarrow> (Inr rpr, w5))))))))"

definition VerifyEmail ::
  "env \<Rightarrow> Client \<Rightarrow> ResetPasswordResponse \<Rightarrow> world
     \<Rightarrow> error option \<times> ResetPasswordResponse \<times> world" where
  "VerifyEmail E idx r w =
     (if \<not> HasStep r ResetPasswordStepEmailVerification then (Some (step_not_available r), r, w)
      else
     (case Introspect E idx (idxContext r) w of
        (Inl err, w1) \<Rightarrow> (Some err, r, w1)
      | (Inr resp, w1) \<Rightarrow>
     (case CurrentAuthenticatorEnrollment resp of
        None \<Rightarrow> (Some (enrollment_missing resp), r, w1)
      | Some cae \<Rightarrow>
     (case Proceed E (Recover cae) [] w1 of
        (Inl err, w2) \<Rightarrow> (Some err, r, w2)
      | (Inr resp2, w2) \<Rightarrow>
     (case authenticatorOption resp2 ''select-authenticator-authenticate'' ''Email'' of
        Inl err \<Rightarrow> (Some err, r, w2)
      | Inr (ro, authID) \<Rightarrow>
     (case Proceed E ro (authenticator_payload authID) w2 of
        (Inl err, w3) \<Rightarrow> (Some err, r, w3)
      | (Inr resp3, w3) \<Rightarrow>
     (case setupNextSteps E idx r resp3 w3 of
        (Some err, r1, w4) \<Rightarrow> (Some err, r1, w4)
      | (None, r1, w4) \<Rightarrow>
          (None,
           r1\<lparr>availableSteps := availableSteps r1 @ [ResetPasswordStepEmailConfirmation]\<rparr>,
           w4))))))))"

definition confirmWithCode ::
  "env \<Rightarrow> Client \<Rightarrow> ResetPasswordResponse \<Rightarrow> string \<Rightarrow> world
     \<Rightarrow> error option \<times> ResetPasswordResponse \<times> world" where
  "confirmWithCode E idx r code w =
     (case Introspect E idx (idxContext r) w of
        (Inl err, w1) \<Rightarrow> (Some err, r, w1)
      | (Inr resp, w1) \<Rightarrow>
     (case remediationOption resp ''challenge-authenticator'' of
        Inl err \<Rightarrow> (Some err, r, w1)
      | Inr ro \<Rightarrow>
     (case Proceed E ro (code_credentials (TrimSpace E code)) w1 of
        (Inl err, w2) \<Rightarrow> (Some err, r, w2)
      | (Inr resp2, w2) \<Rightarrow> setupNextSteps E idx r resp2 w2)))"

definition ConfirmEmail ::
  "env \<Rightarrow> Client \<Rightarrow> ResetPasswordResponse \<Rightarrow> string \<Rightarrow> world
     \<Rightarrow> error option \<times> ResetPasswordResponse \<times> world" where
  "ConfirmEmail E idx r code w =
     (if \<not> HasStep r ResetPasswordStepEmailConfirmation then (Some (step_not_available r), r, w)
      else confirmWithCode E idx r code w)"

text \<open>
  \<^verbatim>\<open>AnswerSecurityQuestion\<close> reads \<^verbatim>\<open>r.sq.QuestionKey\<close> to build the payload, a
  panic when \<^verbatim>\<open>r.sq\<close> is nil. The deferred \<^verbatim>\<open>r.sq = nil\<close> is registered after the
  submission has succeeded and runs when the call ends, after \<^verbatim>\<open>setupNextSteps\<close>.
\<close>

definition AnswerSecurityQuestion ::
  "env \<Rightarrow> Client \<Rightarrow> ResetPasswordResponse \<Rightarrow> string \<Rightarrow> world
     \<Rightarrow> error option \<times> ResetPasswordResponse \<times> world" where
  "AnswerSecurityQuestion E idx r answer w =
     (if \<not> HasStep r ResetPasswordStepAnswerSecurityQuestion then (Some (step_not_available r), r, w)
      else
     (case Introspect E idx (idxContext r) w of
        (Inl err, w1) \<Rightarrow> (Some err, r, w1)
      | (Inr resp, w1) \<Rightarrow>
     (case remediationOption resp ''challenge-authenticator'' of
        Inl err \<Rightarrow> (Some err, r, w1)
      | Inr ro \<Rightarrow>
     (case sq r of
        None \<Rightarrow> (Some NilPointerDereference, r, w1)
      | Some q \<Rightarrow>
     (case Proceed E ro (answer_credentials (QuestionKey q) answer) w1 of
        (Inl err, w2) \<Rightarrow> (Some err, r, w2)
      | (Inr resp2, w2) \<Rightarrow>
     (case setupNextSteps E idx r resp2 w2 of
        (err, r1, w3) \<Rightarrow> (err, r1\<lparr>sq := None\<rparr>, w3)))))))"

definition SetNewPassword ::
  "env \<Rightarrow> Client \<Rightarrow> ResetPasswordResponse \<Rightarrow> string \<Rightarrow> world
     \<Rightarrow> error option \<times> ResetPasswordResponse \<times> world" where
  "SetNewPassword E idx r password w =
     (if \<not> HasStep r ResetPasswordStepNewPassword then (Some (step_not_available r), r, w)
      else
     (case Introspect E idx (idxContext r) w of
        (Inl err, w1) \<Rightarrow> (Some err, r, w1)
      | (Inr resp, w1) \<Rightarrow>
     (case remediationOption resp ''reset-authenticator'' of
        Inl err \<Rightarrow> (Some err, r, w1)
      | Inr ro \<Rightarrow>
     (case Proceed E ro (password_credentials (TrimSpace E password)) w1 of
        (Inl err, w2) \<Rightarrow> (Some err, r, w2)
      | (Inr resp2, w2) \<Rightarrow> setupNextSteps E idx r resp2 w2))))"

definition Cancel ::
  "env \<Rightarrow> Client \<Rightarrow> ResetPasswordResponse \<Rightarrow> world
     \<Rightarrow> error option \<times> ResetPasswordResponse \<times> world" where
  "Cancel E idx r w =
     (if \<not> HasStep r ResetPasswordStepCancel then (Some (step_not_available r), r, w)
      else
     (case Introspect E idx (idxContext r) w of
        (Inl err, w1) \<Rightarrow> (Some err, r, w1)
      | (Inr resp, w1) \<Rightarrow>
     (case Cancel_Response E resp w1 of
        (Inl err, w2) \<Rightarrow> (Some err, r, w2)
      | (Inr resp2, w2) \<Rightarrow> setupNextSteps E idx r resp2 w2)))"

definition SecurityQuestion_of :: "ResetPasswordResponse \<Rightarrow> SecurityQuestion option" where
  "SecurityQuestion_of r = sq r"

definition Token_of :: "ResetPasswordResponse \<Rightarrow> Token option" where
  "Token_of r = token r"

section \<open>Authentication\<close>

definition AuthStatusSuccess :: string where
  "AuthStatusSuccess = ''SUCCESS''"

definition AuthStatusPasswordExpired :: string where
  "AuthStatusPasswordExpired = ''PASSWORD_EXPIRED''"

definition AuthStatusUnhandled :: string where
  "AuthStatusUnhandled = ''UNHANDLED_RESPONSE''"

record AuthenticationOptions =
  Username :: string
  Password :: string

text \<open>
  The fields \<^verbatim>\<open>idxContext\<close> and \<^verbatim>\<open>token\<close> of \<^verbatim>\<open>AuthenticationResponse\<close> carry a
  prefix here, the password-reset response having fields of the same names. A Go string
  that is never assigned is the empty string.
\<close>

record AuthenticationResponse =
  auth_idxContext :: "Context option"
  auth_token :: "Token option"
  authenticationStatus :: string

definition identify_payload :: "string \<Rightarrow> string" where
  \<open>identify_payload username =
     ''{\<newline>'' @ tabs 2 @ ''"identifier": "'' @ username @ ''"\<newline>'' @ tabs 1 @ ''}''\<close>

definition identify_credentials_payload :: "string \<Rightarrow> string \<Rightarrow> string" where
  \<open>identify_credentials_payload username password =
     ''{\<newline>'' @ tabs 2 @ ''"identifier": "'' @ username @ ''",\<newline>'' @
     tabs 2 @ ''"credentials": {\<newline>'' @
     tabs 3 @ ''"passcode": "'' @ password @ ''"\<newline>'' @
     tabs 2 @ ''}\<newline>'' @ tabs 1 @ ''}''\<close>

definition handleIdentityFirst ::
  "env \<Rightarrow> AuthenticationOptions \<Rightarrow> RemediationOption \<Rightarrow> world \<Rightarrow> (error + Response) \<times> world" where
  "handleIdentityFirst E options remediationOption0 w =
     (case Proceed E remediationOption0 (identify_payload (Username options)) w of
        (Inl err, w1) \<Rightarrow> (Inl err, w1)
      | (Inr response, w1) \<Rightarrow>
     (case getRemediationOption response ''challenge-authenticator'' of
        Inl err \<Rightarrow> (Inl err, w1)
      | Inr ro \<Rightarrow> Proceed E ro (password_credentials (Password options)) w1))"

definition handleSingleStepIdentity ::
  "env \<Rightarrow> AuthenticationOptions \<Rightarrow> RemediationOption \<Rightarrow> world \<Rightarrow> (error + Response) \<times> world" where
  "handleSingleStepIdentity E options ro w =
     Proceed E ro (identify_credentials_payload (Username options) (Password options)) w"

definition handleRemediation ::
  "env \<Rightarrow> Client \<Rightarrow> Context option \<Rightarrow> Response \<Rightarrow> world
     \<Rightarrow> (error + AuthenticationResponse option) \<times> world" where
  "handleRemediation E c ictx response w =
     (let authenticationResponse =
            \<lparr>auth_idxContext = ictx, auth_token = None, authenticationStatus = []\<rparr>
      in
        if LoginSuccess response then
          (case ictx of
             None \<Rightarrow> (Inl NilPointerDereference, w)
           | Some x \<Rightarrow>
          (case SuccessResponse response of
             None \<Rightarrow> (Inl NilPointerDereference, w)
           | Some so \<Rightarrow>
          (case ExchangeCode E so (exchangeForm (ClientSecret c) (CodeVerifier x)) w of
             (Inl err, w1) \<Rightarrow> (Inl err, w1)
           | (Inr tokens, w1) \<Rightarrow>
               (Inr (Some (authenticationResponse
                             \<lparr>auth_token := Some tokens, authenticationStatus := AuthStatusSuccess\<rparr>)),
                w1))))
        else (Inr (Some authenticationResponse), w))"

text \<open>
  \<^verbatim>\<open>Authenticate\<close> returns a pointer and an error: \<open>Inl\<close> is a non-nil error (with a
  nil pointer), \<open>Inr (Some a)\<close> a response with a nil error, \<open>Inr None\<close> the pair
  \<^verbatim>\<open>nil, nil\<close>.
\<close>

definition Authenticate ::
  "env \<Rightarrow> Client \<Rightarrow> AuthenticationOptions \<Rightarrow> world
     \<Rightarrow> (error + AuthenticationResponse option) \<times> world" where
  "Authenticate E c options w =
     (case Interact E c w of
        (Inl err, w1) \<Rightarrow> (Inl err, w1)
      | (Inr ictx, w1) \<Rightarrow>
     (case Introspect E c (Some ictx) w1 of
        (Inl err, w2) \<Rightarrow> (Inl err, w2)
      | (Inr response, w2) \<Rightarrow>
     (case getRemediationOption response ''identify'' of
        Inl err \<Rightarrow> (Inl err, w2)
      | Inr ro \<Rightarrow>
     (case IsIdentityFirst E ro of
        Inl err \<Rightarrow> (Inl err, w2)
      | Inr identityFirst \<Rightarrow>
          if identityFirst then
            (case handleIdentityFirst E options ro w2 of
               (Inl err, w3) \<Rightarrow> (Inl err, w3)
             | (Inr response2, w3) \<Rightarrow> handleRemediation E c (Some ictx) response2 w3)
          else (Inr None, w2)))))"

section \<open>Example documents, provider and states\<close>

definition example_client :: Client where
  "example_client =
     \<lparr>config = \<lparr>ClientID = ''0oa1'', IDX_ClientSecret = ''s3cret'', Scopes = [''openid'', ''profile''],
                 RedirectURI = ''https://app.example/callback'',
                 Issuer = ''https://idp.example/oauth2/default''\<rparr>\<rparr>"

definition empty_doc :: Response where
  "empty_doc =
     \<lparr>Remediation = [], CancelResponse = None, SuccessResponse = None, Messages = None,
      CurrentAuthenticatorEnrollment = None\<rparr>"

definition email_option :: RemediationOption where
  "email_option =
     \<lparr>ro_Name = ''select-authenticator-authenticate'', ro_Href = ''https://idp.example/idp/idx/challenge'',
      FormValues =
        [FormValue ''authenticator'' [] []
           (Some [FormValue ''id'' ''Password'' ''aut1'' None, FormValue ''id'' ''Email'' ''aut2'' None])]\<rparr>"

definition email_doc :: Response where
  "email_doc = empty_doc\<lparr>Remediation := [email_option]\<rparr>"

definition question_option :: RemediationOption where
  "question_option =
     \<lparr>ro_Name = ''challenge-authenticator'', ro_Href = ''https://idp.example/idp/idx/challenge/answer'',
      FormValues =
        [FormValue ''stateHandle'' [] ''02abc'' None,
         FormValue ''credentials'' [] []
           (Some [FormValue ''questionKey'' ''Name of your first pet'' ''first_pet'' None,
                  FormValue ''answer'' ''Answer'' [] None])]\<rparr>"

definition question_doc :: Response where
  "question_doc = empty_doc\<lparr>Remediation := [question_option]\<rparr>"

definition identify_option :: RemediationOption where
  "identify_option =
     \<lparr>ro_Name = ''identify'', ro_Href = ''https://idp.example/idp/idx/identify'',
      FormValues = [FormValue ''identifier'' ''Username'' [] None]\<rparr>"

definition recover_option :: RemediationOption where
  "recover_option =
     \<lparr>ro_Name = ''recover'', ro_Href = ''https://idp.example/idp/idx/recover'', FormValues = []\<rparr>"

definition start_doc :: Response where
  "start_doc =
     empty_doc\<lparr>Remediation := [identify_option, question_option],
               CurrentAuthenticatorEnrollment := Some \<lparr>Recover = recover_option\<rparr>\<rparr>"

definition success_doc :: Response where
  "success_doc = empty_doc\<lparr>SuccessResponse := Some (SuccessOption ''https://idp.example/oauth2/v1/token'')\<rparr>"

definition enrolled_doc :: Response where
  "enrolled_doc = empty_doc\<lparr>CurrentAuthenticatorEnrollment := Some \<lparr>Recover = recover_option\<rparr>\<rparr>"

text \<open>
  A provider that answers every introspection with one document and every \<^verbatim>\<open>Proceed\<close>
  with one reply, and always exchanges the code for a token. The digest is a stand-in
  of the right length, the random bytes count upwards.
\<close>

definition example_bytes :: "nat \<Rightarrow> nat \<Rightarrow> 8 word" where
  "example_bytes k i = of_nat (i + k)"

definition example_digest :: "8 word list \<Rightarrow> 8 word list" where
  "example_digest bs = take 32 (bs @ replicate 32 0)"

definition provider :: "Response \<Rightarrow> error + Response \<Rightarrow> bool \<Rightarrow> env" where
  "provider introspected proceeded identityFirst =
     \<lparr>crand_Read = (\<lambda>k. Inr (example_bytes k)),
      sha256_Write = (\<lambda>bs. None),
      sha256_Sum = example_digest,
      url_Parse = (\<lambda>s. Inr (''https'', ''idp.example'')),
      NewRequest_error = (\<lambda>m u. None),
      user_agent = (\<lambda>v. ''okta-idx-golang/'' @ v),
      http_Do = (\<lambda>cs req. Inr \<lparr>StatusCode = 200, Body = Inr []\<rparr>),
      Unmarshal_ErrorResponse = (\<lambda>b. Inr (ErrorResponse b)),
      Unmarshal_interactionHandle = (\<lambda>b. Inr ''02handle''),
      Unmarshal_Response = (\<lambda>b. Inr introspected),
      Marshal_InteractionHandle = (\<lambda>h. Inr []),
      Marshal_IdentifyRequest = (\<lambda>ir. fst ir),
      TrimSpace = (\<lambda>s. s),
      IsIdentityFirst = (\<lambda>ro. Inr identityFirst),
      Proceed_reply = (\<lambda>cs ro data. proceeded),
      Cancel_reply = (\<lambda>cs resp. proceeded),
      ExchangeCode_reply = (\<lambda>cs so data. Inr (Token ''token''))\<rparr>"

text \<open>What \<open>Interact\<close> generates and sends with this provider, from a new world.\<close>

definition example_verifier :: string where
  "example_verifier = EncodeToString (map (example_bytes 0) [0..<86])"

definition example_state :: string where
  "example_state = EncodeToString (map (example_bytes (Suc 0)) [0..<16])"

definition interact_request :: http_request where
  "interact_request =
     \<lparr>req_method = ''POST'', req_url = ''https://idp.example/oauth2/default/v1/interact'',
      req_header = [(''Content-Type'', ''application/x-www-form-urlencoded''),
                    (''User-Agent'', ''okta-idx-golang/0.1.0-beta.2'')],
      req_body = FormBody (interact_data example_client
         (EncodeToString (example_digest (map of_char example_verifier))) example_state)\<rparr>"

definition interacted_context :: Context where
  "interacted_context =
     \<lparr>codeVerifier = example_verifier,
      interactionHandle = Some \<lparr>InteractionHandle = ''02handle''\<rparr>,
      state = example_state\<rparr>"

definition interacted_world :: world where
  "interacted_world = \<lparr>calls = [DoCall interact_request], rand_reads = Suc (Suc 0)\<rparr>"

definition example_context :: Context where
  "example_context =
     \<lparr>codeVerifier = ''verifier'', interactionHandle = Some \<lparr>InteractionHandle = ''02handle''\<rparr>,
      state = ''state''\<rparr>"

definition fresh_response :: ResetPasswordResponse where
  "fresh_response =
     \<lparr>idxContext = Some example_context, token = None, availableSteps = [], sq = None\<rparr>"

definition first_pet :: SecurityQuestion where
  "first_pet = \<lparr>QuestionKey = ''first_pet'', Question = ''Name of your first pet''\<rparr>"

definition new_world :: world where
  "new_world = \<lparr>calls = [], rand_reads = 0\<rparr>"

text \<open>
  The calls of \<^verbatim>\<open>AnswerSecurityQuestion\<close> between its step test and the deferred
  statement: introspection, the lookup of the challenge option, the payload built from the
  cached question and its submission.
\<close>

definition answer_submission ::
  "env \<Rightarrow> Client \<Rightarrow> ResetPasswordResponse \<Rightarrow> string \<Rightarrow> world \<Rightarrow> (error + Response) \<times> world" where
  "answer_submission E idx r answer w =
     (case Introspect E idx (idxContext r) w of
        (Inl err, w1) \<Rightarrow> (Inl err, w1)
      | (Inr resp, w1) \<Rightarrow>
     (case remediationOption resp ''challenge-authenticator'' of
        Inl err \<Rightarrow> (Inl err, w1)
      | Inr ro \<Rightarrow>
     (case sq r of
        None \<Rightarrow> (Inl NilPointerDereference, w1)
      | Some q \<Rightarrow> Proceed E ro (answer_credentials (QuestionKey q) answer) w1)))"

text \<open>
  A response object waiting for the answer to a security question, a provider that cannot
  be reached, and one that refuses the token exchange.
\<close>

definition asking :: ResetPasswordResponse where
  "asking = fresh_response\<lparr>availableSteps := [ResetPasswordStepAnswerSecurityQuestion], sq := Some first_pet\<rparr>"

definition unreachable :: "env \<Rightarrow> env" where
  "unreachable E = E\<lparr>http_Do := (\<lambda>cs req. Inl (External ''connection refused''))\<rparr>"

definition refusing_exchange :: "env \<Rightarrow> env" where
  "refusing_exchange E = E\<lparr>ExchangeCode_reply := (\<lambda>cs so data. Inl (External ''invalid_grant''))\<rparr>"

section \<open>Properties of the password-reset flow\<close>

lemma HasStep_loop_iff: "HasStep_loop xs s \<longleftrightarrow> s \<in> set xs"
  by (induction xs) auto

lemma HasStep_iff: "HasStep r s \<longleftrightarrow> s \<in> set (availableSteps r)"
  by (simp add: HasStep_def HasStep_loop_iff)

lemmas step_defs =
  ResetPasswordStepEmailVerification_def ResetPasswordStepEmailConfirmation_def
  ResetPasswordStepAnswerSecurityQuestion_def ResetPasswordStepNewPassword_def
  ResetPasswordStepCancel_def ResetPasswordStepSkip_def ResetPasswordStepSuccess_def

text \<open>
  Claim C1. Each of the five transitions, called on a response object whose available
  steps do not contain the step the transition requires, returns the error that lists
  the available steps (each printed through \<open>String\<close>), and leaves the response
  object and the world as they were: nothing is sent, no call is recorded, and
  \<open>availableSteps\<close>, \<open>sq\<close> and \<open>token\<close> keep their values.
\<close>

theorem transition_rejects_without_step:
  "(ResetPasswordStepEmailVerification \<notin> set (availableSteps r) \<longrightarrow>
      VerifyEmail E idx r w = (Some (StepNotAvailable (map String (availableSteps r))), r, w)) \<and>
   (ResetPasswordStepEmailConfirmation \<notin> set (availableSteps r) \<longrightarrow>
      ConfirmEmail E idx r code w = (Some (StepNotAvailable (map String (availableSteps r))), r, w)) \<and>
   (ResetPasswordStepAnswerSecurityQuestion \<notin> set (availableSteps r) \<longrightarrow>
      AnswerSecurityQuestion E idx r answer w =
        (Some (StepNotAvailable (map String (availableSteps r))), r, w)) \<and>
   (ResetPasswordStepNewPassword \<notin> set (availableSteps r) \<longrightarrow>
      SetNewPassword E idx r password w =
        (Some (StepNotAvailable (map String (availableSteps r))), r, w)) \<and>
   (ResetPasswordStepCancel \<notin> set (availableSteps r) \<longrightarrow>
      Cancel E idx r w = (Some (StepNotAvailable (map String (availableSteps r))), r, w))"
  by (simp add: VerifyEmail_def ConfirmEmail_def AnswerSecurityQuestion_def SetNewPassword_def
      Cancel_def HasStep_iff step_not_available_def AvailableSteps_def)

lemma String_Skip: "String ResetPasswordStepSkip = ''SKIP''"
  by (simp add: String_def resetStepText_def step_defs)

theorem transition_rejects_without_step_witness:
  "ResetPasswordStepEmailVerification \<notin> set (availableSteps (fresh_response\<lparr>availableSteps := [ResetPasswordStepSkip]\<rparr>)) \<and>
   ResetPasswordStepEmailConfirmation \<notin> set (availableSteps (fresh_response\<lparr>availableSteps := [ResetPasswordStepSkip]\<rparr>)) \<and>
   ResetPasswordStepAnswerSecurityQuestion \<notin> set (availableSteps (fresh_response\<lparr>availableSteps := [ResetPasswordStepSkip]\<rparr>)) \<and>
   ResetPasswordStepNewPassword \<notin> set (availableSteps (fresh_response\<lparr>availableSteps := [ResetPasswordStepSkip]\<rparr>)) \<and>
   ResetPasswordStepCancel \<notin> set (availableSteps (fresh_response\<lparr>availableSteps := [ResetPasswordStepSkip]\<rparr>)) \<and>
   VerifyEmail (provider start_doc (Inr email_doc) True) example_client
       (fresh_response\<lparr>availableSteps := [ResetPasswordStepSkip]\<rparr>) new_world =
     (Some (StepNotAvailable [''SKIP'']), fresh_response\<lparr>availableSteps := [ResetPasswordStepSkip]\<rparr>, new_world) \<and>
   ConfirmEmail (provider start_doc (Inr email_doc) True) example_client
       (fresh_response\<lparr>availableSteps := [ResetPasswordStepSkip]\<rparr>) ''123456'' new_world =
     (Some (StepNotAvailable [''SKIP'']), fresh_response\<lparr>availableSteps := [ResetPasswordStepSkip]\<rparr>, new_world) \<and>
   AnswerSecurityQuestion (provider start_doc (Inr email_doc) True) example_client
       (fresh_response\<lparr>availableSteps := [ResetPasswordStepSkip]\<rparr>) ''Rex'' new_world =
     (Some (StepNotAvailable [''SKIP'']), fresh_response\<lparr>availableSteps := [ResetPasswordStepSkip]\<rparr>, new_world) \<and>
   SetNewPassword (provider start_doc (Inr email_doc) True) example_client
       (fresh_response\<lparr>availableSteps := [ResetPasswordStepSkip]\<rparr>) ''pw'' new_world =
     (Some (StepNotAvailable [''SKIP'']), fresh_response\<lparr>availableSteps := [ResetPasswordStepSkip]\<rparr>, new_world) \<and>
   Cancel (provider start_doc (Inr email_doc) True) example_client
       (fresh_response\<lparr>availableSteps := [ResetPasswordStepSkip]\<rparr>) new_world =
     (Some (StepNotAvailable [''SKIP'']), fresh_response\<lparr>availableSteps := [ResetPasswordStepSkip]\<rparr>, new_world)"
  using transition_rejects_without_step
    [of "fresh_response\<lparr>availableSteps := [ResetPasswordStepSkip]\<rparr>"
        "provider start_doc (Inr email_doc) True" example_client new_world
        "''123456''" "''Rex''" "''pw''"]
  by (simp add: String_Skip) (simp add: step_defs)

lemma probe_steps_idem:
  "probe_steps q d = (steps, q') \<Longrightarrow> probe_steps q' d = (steps, q')"
  by (auto simp: probe_steps_def Let_def split: sum.splits option.splits if_splits)

lemma setupNextSteps_again:
  assumes "\<not> LoginSuccess d" and "setupNextSteps E idx r d w = (e1, r1, w1)"
  shows "setupNextSteps E idx r1 d w1 = (e1, r1, w1)"
proof -
  obtain steps q where p: "probe_steps (sq r) d = (steps, q)" by (cases "probe_steps (sq r) d")
  from assms p have "sq r1 = q"
    by (auto simp: setupNextSteps_def split: if_splits option.splits)
  with p have p1: "probe_steps (sq r1) d = (steps, q)" by (simp add: probe_steps_idem)
  from assms p p1 show ?thesis
    by (auto simp: setupNextSteps_def split: if_splits option.splits)
qed

text \<open>
  Claim C7. On a document without success marker, a second run of \<open>setupNextSteps\<close>
  on the same document, from the response object and world the first run left, ends with
  the same available steps and the same cached security question as the first, and with
  the same error or absence of error.
\<close>

theorem setupNextSteps_idempotent:
  assumes "\<not> LoginSuccess d"
      and "setupNextSteps E idx r d w = (e1, r1, w1)"
      and "setupNextSteps E idx r1 d w1 = (e2, r2, w2)"
  shows "availableSteps r2 = availableSteps r1 \<and> sq r2 = sq r1 \<and> e2 = e1"
  using setupNextSteps_again [OF assms(1,2)] assms(3) by simp

lemma question_doc_not_success: "\<not> LoginSuccess question_doc"
  by (simp add: LoginSuccess_def question_doc_def empty_doc_def)

lemma probe_question_doc:
  "probe_steps q question_doc = ([ResetPasswordStepAnswerSecurityQuestion], Some first_pet)"
  by (simp add: probe_steps_def question_doc_def empty_doc_def question_option_def first_pet_def
      authenticatorOption_def remediationOption_def)

lemma setup_question_doc:
  "setupNextSteps E idx r question_doc w =
     (None, r\<lparr>sq := Some first_pet, availableSteps := [ResetPasswordStepAnswerSecurityQuestion]\<rparr>, w)"
  by (simp add: setupNextSteps_def question_doc_not_success probe_question_doc)

theorem setupNextSteps_idempotent_witness:
  "\<not> LoginSuccess question_doc \<and>
   setupNextSteps (provider start_doc (Inr question_doc) True) example_client fresh_response
       question_doc new_world =
     (None,
      fresh_response\<lparr>sq := Some first_pet, availableSteps := [ResetPasswordStepAnswerSecurityQuestion]\<rparr>,
      new_world) \<and>
   setupNextSteps (provider start_doc (Inr question_doc) True) example_client
       (fresh_response\<lparr>sq := Some first_pet, availableSteps := [ResetPasswordStepAnswerSecurityQuestion]\<rparr>)
       question_doc new_world =
     (None,
      fresh_response\<lparr>sq := Some first_pet, availableSteps := [ResetPasswordStepAnswerSecurityQuestion]\<rparr>,
      new_world) \<and>
   availableSteps (fresh_response\<lparr>sq := Some first_pet, availableSteps := [ResetPasswordStepAnswerSecurityQuestion]\<rparr>)
     = [ResetPasswordStepAnswerSecurityQuestion]"
  using setupNextSteps_idempotent
    [OF question_doc_not_success
        setup_question_doc [of "provider start_doc (Inr question_doc) True" example_client fresh_response new_world]
        setup_question_doc [of "provider start_doc (Inr question_doc) True" example_client
            "fresh_response\<lparr>sq := Some first_pet, availableSteps := [ResetPasswordStepAnswerSecurityQuestion]\<rparr>" new_world]]
  by (simp add: question_doc_not_success setup_question_doc)

text \<open>
  Claim C6. For a document without success or cancel marker whose only remediation
  option is "select-authenticator-authenticate" and in which the navigator finds an
  authenticator labelled "Email", \<open>setupNextSteps\<close> succeeds, sends nothing and leaves
  exactly the step EmailVerification; and whenever \<open>VerifyEmail\<close>, called on the
  resulting response object, returns without error, the available steps it leaves
  contain EmailConfirmation.
\<close>

theorem email_only_document:
  assumes "Remediation d = [ro]"
      and "ro_Name ro = ''select-authenticator-authenticate''"
      and "authenticatorOption d ''select-authenticator-authenticate'' ''Email'' = Inr a"
      and "CancelResponse d = None"
      and "SuccessResponse d = None"
  shows "setupNextSteps E idx r d w =
           (None, r\<lparr>availableSteps := [ResetPasswordStepEmailVerification]\<rparr>, w) \<and>
         (\<forall>E' w' r' w''.
            VerifyEmail E' idx (r\<lparr>availableSteps := [ResetPasswordStepEmailVerification]\<rparr>) w'
              = (None, r', w'') \<longrightarrow>
            ResetPasswordStepEmailConfirmation \<in> set (availableSteps r'))"
proof
  have others: "remediationOption d ''skip'' = Inl (OptionNotFound ''skip'')"
    "remediationOption d ''challenge-authenticator'' = Inl (OptionNotFound ''challenge-authenticator'')"
    "remediationOption d ''reset-authenticator'' = Inl (OptionNotFound ''reset-authenticator'')"
    using assms(1,2) by (simp_all add: remediationOption_def)
  have "probe_steps (sq r) d = ([ResetPasswordStepEmailVerification], sq r)"
    using assms(3,4) others by (simp add: probe_steps_def)
  then show "setupNextSteps E idx r d w =
           (None, r\<lparr>availableSteps := [ResetPasswordStepEmailVerification]\<rparr>, w)"
    using assms(5) by (simp add: setupNextSteps_def LoginSuccess_def)
next
  show "\<forall>E' w' r' w''.
            VerifyEmail E' idx (r\<lparr>availableSteps := [ResetPasswordStepEmailVerification]\<rparr>) w'
              = (None, r', w'') \<longrightarrow>
            ResetPasswordStepEmailConfirmation \<in> set (availableSteps r')"
    by (auto simp: VerifyEmail_def split: if_splits prod.splits sum.splits option.splits)
qed

lemma Introspect_provider:
  "Introspect (provider d p b) example_client (Some ictx) w =
     (Inr d, w\<lparr>calls := calls w @ [DoCall
        \<lparr>req_method = ''POST'', req_url = ''https://idp.example/idp/idx/introspect'',
         req_header = [(''Content-Type'', ''application/ion+json; okta-version=1.0.0''),
                       (''Accept'', ''application/ion+json; okta-version=1.0.0''),
                       (''User-Agent'', ''okta-idx-golang/0.1.0-beta.2'')],
         req_body = RawBody []\<rparr>]\<rparr>)"
  by (simp add: Introspect_def provider_def example_client_def NewRequest_def Do_def
      unmarshalResponse_def WithOktaUserAgent_def Header_Add_def packageVersion_def)

lemma email_doc_facts:
  "Remediation email_doc = [email_option]"
  "ro_Name email_option = ''select-authenticator-authenticate''"
  "authenticatorOption email_doc ''select-authenticator-authenticate'' ''Email'' = Inr (email_option, ''aut2'')"
  "CancelResponse email_doc = None"
  "SuccessResponse email_doc = None"
  by (simp_all add: email_doc_def empty_doc_def email_option_def authenticatorOption_def
      remediationOption_def)

lemma Proceed_provider:
  "Proceed (provider d p b) ro data w = (p, w\<lparr>calls := calls w @ [ProceedCall ro data]\<rparr>)"
  by (simp add: Proceed_def provider_def)

lemma fresh_facts:
  "idxContext fresh_response = Some example_context"
  "availableSteps fresh_response = []"
  "sq fresh_response = None"
  "token fresh_response = None"
  by (simp_all add: fresh_response_def)

lemma start_doc_facts:
  "CurrentAuthenticatorEnrollment start_doc = Some \<lparr>Recover = recover_option\<rparr>"
  "remediationOption start_doc ''challenge-authenticator'' = Inr question_option"
  "remediationOption start_doc ''identify'' = Inr identify_option"
  "getRemediationOption start_doc ''identify'' = Inr identify_option"
  by (simp_all add: start_doc_def empty_doc_def remediationOption_def getRemediationOption_def
      identify_option_def question_option_def)

theorem email_only_document_witness:
  "Remediation email_doc = [email_option] \<and>
   ro_Name email_option = ''select-authenticator-authenticate'' \<and>
   authenticatorOption email_doc ''select-authenticator-authenticate'' ''Email''
     = Inr (email_option, ''aut2'') \<and>
   CancelResponse email_doc = None \<and> SuccessResponse email_doc = None \<and>
   setupNextSteps (provider start_doc (Inr email_doc) True) example_client fresh_response
       email_doc new_world
     = (None, fresh_response\<lparr>availableSteps := [ResetPasswordStepEmailVerification]\<rparr>, new_world) \<and>
   fst (VerifyEmail (provider start_doc (Inr email_doc) True) example_client
          (fresh_response\<lparr>availableSteps := [ResetPasswordStepEmailVerification]\<rparr>) new_world) = None \<and>
   ResetPasswordStepEmailConfirmation \<in>
     set (availableSteps (fst (snd (VerifyEmail (provider start_doc (Inr email_doc) True) example_client
          (fresh_response\<lparr>availableSteps := [ResetPasswordStepEmailVerification]\<rparr>) new_world))))"
proof -
  let ?E = "provider start_doc (Inr email_doc) True"
  let ?r = "fresh_response\<lparr>availableSteps := [ResetPasswordStepEmailVerification]\<rparr>"
  let ?V = "VerifyEmail ?E example_client ?r new_world"
  note t = email_only_document [OF email_doc_facts, of ?E example_client fresh_response new_world]
  have s: "setupNextSteps ?E example_client ?r email_doc w = (None, ?r, w)" for w
    using email_only_document [OF email_doc_facts, of ?E example_client ?r w] by simp
  have ok: "fst ?V = None"
    by (simp add: VerifyEmail_def HasStep_def fresh_facts Introspect_provider start_doc_facts
        Proceed_provider email_doc_facts s)
  then have "?V = (None, fst (snd ?V), snd (snd ?V))"
    by (metis prod.collapse)
  with t have "ResetPasswordStepEmailConfirmation \<in> set (availableSteps (fst (snd ?V)))"
    by blast
  with t ok show ?thesis by (simp add: email_doc_facts)
qed

lemma asking_facts:
  "HasStep asking ResetPasswordStepAnswerSecurityQuestion"
  "idxContext asking = Some example_context"
  "sq asking = Some first_pet"
  "availableSteps asking = [ResetPasswordStepAnswerSecurityQuestion]"
  by (simp_all add: asking_def HasStep_def fresh_facts)

lemma Introspect_unreachable:
  "Introspect (unreachable (provider d p b)) example_client (Some ictx) w =
     (Inl (Wrapped ''http call has failed'' (External ''connection refused'')),
      w\<lparr>calls := calls w @ [DoCall
        \<lparr>req_method = ''POST'', req_url = ''https://idp.example/idp/idx/introspect'',
         req_header = [(''Content-Type'', ''application/ion+json; okta-version=1.0.0''),
                       (''Accept'', ''application/ion+json; okta-version=1.0.0''),
                       (''User-Agent'', ''okta-idx-golang/0.1.0-beta.2'')],
         req_body = RawBody []\<rparr>]\<rparr>)"
  by (simp add: Introspect_def unreachable_def provider_def example_client_def NewRequest_def Do_def
      unmarshalResponse_def WithOktaUserAgent_def Header_Add_def packageVersion_def)

text \<open>
  Claim C3, as the code has it. When the step AnswerSecurityQuestion is available, the
  call first runs \<open>answer_submission\<close>. If that fails (introspection, lookup of the
  challenge option, a missing cached question, or the submission itself), the call returns
  that error and the response object is unchanged, the cached question included. If it
  succeeds, the call is \<open>setupNextSteps\<close> on the returned document followed by the
  deferred clearing, so the cached question is empty whether the recomputation of the
  steps succeeded or failed.
\<close>

theorem AnswerSecurityQuestion_clears_after_submission:
  assumes "HasStep r ResetPasswordStepAnswerSecurityQuestion"
  shows "case answer_submission E idx r answer w of
           (Inl err, w1) \<Rightarrow> AnswerSecurityQuestion E idx r answer w = (Some err, r, w1)
         | (Inr resp2, w2) \<Rightarrow>
             AnswerSecurityQuestion E idx r answer w
               = (case setupNextSteps E idx r resp2 w2 of (err, r1, w3) \<Rightarrow> (err, r1\<lparr>sq := None\<rparr>, w3)) \<and>
             sq (fst (snd (AnswerSecurityQuestion E idx r answer w))) = None"
  using assms
  by (auto simp: AnswerSecurityQuestion_def answer_submission_def
      split: prod.splits sum.splits option.splits)

text \<open>
  The claim as stated fails: with the provider out of reach, the step available and a
  question cached, the call fails at introspection and the question is still cached.
\<close>

theorem AnswerSecurityQuestion_keeps_question_counterexample:
  "HasStep asking ResetPasswordStepAnswerSecurityQuestion \<and>
   fst (AnswerSecurityQuestion (unreachable (provider start_doc (Inr question_doc) True))
          example_client asking ''Rex'' new_world)
     = Some (Wrapped ''http call has failed'' (External ''connection refused'')) \<and>
   sq (fst (snd (AnswerSecurityQuestion (unreachable (provider start_doc (Inr question_doc) True))
          example_client asking ''Rex'' new_world)))
     = Some first_pet"
  by (simp add: AnswerSecurityQuestion_def asking_facts Introspect_unreachable)

lemma answer_submission_provider:
  "answer_submission (provider start_doc p b) example_client asking answer w =
     (p, w\<lparr>calls := calls w @ [DoCall
        \<lparr>req_method = ''POST'', req_url = ''https://idp.example/idp/idx/introspect'',
         req_header = [(''Content-Type'', ''application/ion+json; okta-version=1.0.0''),
                       (''Accept'', ''application/ion+json; okta-version=1.0.0''),
                       (''User-Agent'', ''okta-idx-golang/0.1.0-beta.2'')],
         req_body = RawBody []\<rparr>,
        ProceedCall question_option (answer_credentials ''first_pet'' answer)]\<rparr>)"
  by (simp add: answer_submission_def asking_facts Introspect_provider start_doc_facts
      Proceed_provider first_pet_def)

theorem AnswerSecurityQuestion_clears_after_submission_witness:
  "HasStep asking ResetPasswordStepAnswerSecurityQuestion \<and>
   fst (answer_submission (provider start_doc (Inr question_doc) True) example_client asking
          ''Rex'' new_world) = Inr question_doc \<and>
   fst (AnswerSecurityQuestion (provider start_doc (Inr question_doc) True) example_client asking
          ''Rex'' new_world) = None \<and>
   sq (fst (snd (AnswerSecurityQuestion (provider start_doc (Inr question_doc) True) example_client
          asking ''Rex'' new_world))) = None"
  using AnswerSecurityQuestion_clears_after_submission
    [OF asking_facts(1), of "provider start_doc (Inr question_doc) True" example_client
        "''Rex''" new_world]
  by (simp add: answer_submission_provider setup_question_doc asking_facts)

text \<open>
  Claim C9 at a concrete call. The response object offers the step AnswerSecurityQuestion
  with a cached question; the provider answers the submission with a document that asks a
  question again. The call returns without error, the step is still available, and the
  cached question is empty: the deferred clearing ran after \<open>setupNextSteps\<close> had
  stored the new question. The next call of the transition passes its step test and
  panics on the nil question.
\<close>

theorem AnswerSecurityQuestion_leaves_step_without_question:
  "(case AnswerSecurityQuestion (provider start_doc (Inr question_doc) True) example_client asking
           ''Rex'' new_world of
      (err, r', w') \<Rightarrow>
        err = None \<and>
        HasStep r' ResetPasswordStepAnswerSecurityQuestion \<and>
        SecurityQuestion_of r' = None \<and>
        fst (AnswerSecurityQuestion (provider start_doc (Inr question_doc) True) example_client r'
               ''Rex'' w') = Some NilPointerDereference)"
  by (simp add: AnswerSecurityQuestion_def asking_facts Introspect_provider start_doc_facts
      Proceed_provider setup_question_doc HasStep_def SecurityQuestion_of_def)

lemma exchangeForm_contains:
  "\<exists>a b c. exchangeForm secret verifier = a @ secret @ b @ verifier @ c"
  unfolding exchangeForm_def by (metis append.assoc)

text \<open>
  Claim C2, as the code has it. For a document with a success marker and a response
  object that holds its session context, \<open>setupNextSteps\<close> issues exactly one
  token-exchange call, on the success marker, with a payload that contains the client
  secret and the context's code verifier. If the provider answers with a token, the token
  is stored and the available steps are exactly Success; if it answers with an error, that
  error is returned and the response object is unchanged.
\<close>

theorem success_document_exchanges_code:
  assumes "LoginSuccess resp" and "idxContext r = Some ictx"
  shows "\<exists>so form a b c.
           SuccessResponse resp = Some so \<and>
           form = exchangeForm (ClientSecret idx) (CodeVerifier ictx) \<and>
           form = a @ ClientSecret idx @ b @ CodeVerifier ictx @ c \<and>
           (case ExchangeCode_reply E (calls w) so form of
              Inr tokens \<Rightarrow>
                setupNextSteps E idx r resp w
                  = (None, r\<lparr>token := Some tokens, availableSteps := [ResetPasswordStepSuccess]\<rparr>,
                     w\<lparr>calls := calls w @ [ExchangeCodeCall so form]\<rparr>)
            | Inl err \<Rightarrow>
                setupNextSteps E idx r resp w
                  = (Some err, r, w\<lparr>calls := calls w @ [ExchangeCodeCall so form]\<rparr>))"
proof -
  from assms(1) obtain so where so: "SuccessResponse resp = Some so"
    by (auto simp: LoginSuccess_def)
  obtain a b c where f: "exchangeForm (ClientSecret idx) (CodeVerifier ictx)
      = a @ ClientSecret idx @ b @ CodeVerifier ictx @ c"
    using exchangeForm_contains by blast
  have "case ExchangeCode_reply E (calls w) so (exchangeForm (ClientSecret idx) (CodeVerifier ictx)) of
              Inr tokens \<Rightarrow>
                setupNextSteps E idx r resp w
                  = (None, r\<lparr>token := Some tokens, availableSteps := [ResetPasswordStepSuccess]\<rparr>,
                     w\<lparr>calls := calls w @ [ExchangeCodeCall so (exchangeForm (ClientSecret idx) (CodeVerifier ictx))]\<rparr>)
            | Inl err \<Rightarrow>
                setupNextSteps E idx r resp w
                  = (Some err, r, w\<lparr>calls := calls w @ [ExchangeCodeCall so (exchangeForm (ClientSecret idx) (CodeVerifier ictx))]\<rparr>)"
    using assms so by (simp add: setupNextSteps_def ExchangeCode_def split: sum.splits)
  with so f show ?thesis by blast
qed

lemma success_doc_facts:
  "LoginSuccess success_doc"
  "SuccessResponse success_doc = Some (SuccessOption ''https://idp.example/oauth2/v1/token'')"
  by (simp_all add: LoginSuccess_def success_doc_def empty_doc_def)

theorem success_document_exchanges_code_witness:
  "LoginSuccess success_doc \<and> idxContext fresh_response = Some example_context \<and>
   setupNextSteps (provider start_doc (Inr success_doc) True) example_client fresh_response
       success_doc new_world
     = (None,
        fresh_response\<lparr>token := Some (Token ''token''), availableSteps := [ResetPasswordStepSuccess]\<rparr>,
        new_world\<lparr>calls := calls new_world @
          [ExchangeCodeCall (SuccessOption ''https://idp.example/oauth2/v1/token'')
             (exchangeForm (ClientSecret example_client) (CodeVerifier example_context))]\<rparr>)"
  using success_document_exchanges_code
    [OF success_doc_facts(1) fresh_facts(1), of example_client
        "provider start_doc (Inr success_doc) True" new_world]
  by (auto simp: success_doc_facts fresh_facts provider_def)

text \<open>
  The claim as stated fails when the provider refuses the exchange: the steps stay as they
  were.
\<close>

theorem success_document_failed_exchange_counterexample:
  "LoginSuccess success_doc \<and>
   set (availableSteps (fst (snd (setupNextSteps
          (refusing_exchange (provider start_doc (Inr success_doc) True)) example_client
          fresh_response success_doc new_world))))
     \<noteq> {ResetPasswordStepSuccess}"
  by (simp add: success_doc_facts setupNextSteps_def fresh_facts ExchangeCode_def
      refusing_exchange_def provider_def)

lemma Interact_provider:
  "Interact (provider d p b) example_client new_world = (Inr interacted_context, interacted_world)"
  by (simp add: Interact_def createCodeVerifier_def createState_def crand_Read_buf_def
      provider_def new_world_def NewRequest_def Do_def unmarshalResponse_def WithOktaUserAgent_def
      Header_Add_def packageVersion_def example_verifier_def example_state_def
      interact_request_def CodeVerifier_def State_def example_client_def
      interacted_context_def interacted_world_def
      del: EncodeToString.simps upt_rec_numeral)

lemma enrolled_doc_facts:
  "CurrentAuthenticatorEnrollment enrolled_doc = Some \<lparr>Recover = recover_option\<rparr>"
  "SuccessResponse enrolled_doc = None" "CancelResponse enrolled_doc = None"
  "Remediation enrolled_doc = []" "Messages enrolled_doc = None"
  by (simp_all add: enrolled_doc_def empty_doc_def)

lemma dead_end_panics:
  assumes "SuccessResponse d = None" "CancelResponse d = None" "Remediation d = []" "Messages d = None"
  shows "setupNextSteps E idx r d w = (Some NilPointerDereference, r, w)"
  using assms
  by (simp add: setupNextSteps_def LoginSuccess_def probe_steps_def
      authenticatorOption_def remediationOption_def)

lemma dead_end_with_messages:
  assumes "SuccessResponse d = None" "CancelResponse d = None" "Remediation d = []"
    and "Messages d = Some m"
  shows "setupNextSteps E idx r d w = (Some (NoMoreSteps (Values m)), r, w)"
  using assms
  by (simp add: setupNextSteps_def LoginSuccess_def probe_steps_def
      authenticatorOption_def remediationOption_def)

text \<open>
  Claim C4 at a concrete document: no success marker, no cancel marker, no remediation
  option, no messages. \<open>setupNextSteps\<close> finds no step and then reads
  \<^verbatim>\<open>resp.Messages.Values\<close> through the nil \<^verbatim>\<open>Messages\<close>: the call panics instead of
  returning the dead-end error, and so does \<open>InitPasswordReset\<close> when the recovery
  option leads to this document. The available steps are left as they were.
\<close>

theorem setupNextSteps_dead_end_without_messages:
  "SuccessResponse enrolled_doc = None \<and> CancelResponse enrolled_doc = None \<and>
   Remediation enrolled_doc = [] \<and> Messages enrolled_doc = None \<and>
   setupNextSteps (provider start_doc (Inr enrolled_doc) True) example_client fresh_response
       enrolled_doc new_world
     = (Some NilPointerDereference, fresh_response, new_world) \<and>
   fst (InitPasswordReset (provider start_doc (Inr enrolled_doc) True) example_client example_client
          \<lparr>Identifier = ''ada@example.com'', RememberMe = False\<rparr> new_world)
     = Inl NilPointerDereference"
  by (simp add: enrolled_doc_facts dead_end_panics InitPasswordReset_def Interact_provider
      Introspect_provider start_doc_facts Proceed_provider)


section \<open>Properties of authentication\<close>

text \<open>
  Claim C10. When the interaction and the introspection succeed, the document has the
  "identify" option and \<open>IsIdentityFirst\<close> answers false for it, \<open>Authenticate\<close>
  returns neither a response nor an error (\<open>Inr None\<close> is the pair of two nils), and
  makes no further call.
\<close>

theorem Authenticate_not_identity_first:
  assumes "Interact E c w = (Inr ictx, w1)"
      and "Introspect E c (Some ictx) w1 = (Inr response, w2)"
      and "getRemediationOption response ''identify'' = Inr ro"
      and "IsIdentityFirst E ro = Inr False"
  shows "Authenticate E c options w = (Inr None, w2)"
  using assms by (simp add: Authenticate_def)

theorem Authenticate_not_identity_first_witness:
  "Interact (provider start_doc (Inr question_doc) False) example_client new_world
     = (Inr interacted_context, interacted_world) \<and>
   fst (Introspect (provider start_doc (Inr question_doc) False) example_client
          (Some interacted_context) interacted_world) = Inr start_doc \<and>
   getRemediationOption start_doc ''identify'' = Inr identify_option \<and>
   IsIdentityFirst (provider start_doc (Inr question_doc) False) identify_option = Inr False \<and>
   fst (Authenticate (provider start_doc (Inr question_doc) False) example_client
          \<lparr>Username = ''ada'', Password = ''pw''\<rparr> new_world) = Inr None"
proof -
  let ?E = "provider start_doc (Inr question_doc) False"
  have i: "Introspect ?E example_client (Some interacted_context) interacted_world
             = (Inr start_doc, snd (Introspect ?E example_client (Some interacted_context) interacted_world))"
    by (simp add: Introspect_provider)
  have f: "IsIdentityFirst ?E identify_option = Inr False"
    by (simp add: provider_def)
  from Authenticate_not_identity_first [OF Interact_provider i start_doc_facts(4) f]
  show ?thesis by (simp add: Interact_provider Introspect_provider start_doc_facts f)
qed


lemma IsIdentityFirst_provider: "IsIdentityFirst (provider d p b) ro = Inr b"
  by (simp add: provider_def)

lemma question_doc_facts:
  "getRemediationOption question_doc ''challenge-authenticator'' = Inr question_option"
  "remediationOption question_doc ''challenge-authenticator'' = Inr question_option"
  by (simp_all add: getRemediationOption_def remediationOption_def question_doc_def empty_doc_def
      question_option_def)

lemma handleRemediation_unfinished:
  "\<not> LoginSuccess response \<Longrightarrow>
   handleRemediation E c ictx response w =
     (Inr (Some \<lparr>auth_idxContext = ictx, auth_token = None, authenticationStatus = []\<rparr>), w)"
  by (simp add: handleRemediation_def)

text \<open>
  Claim C5 at a concrete call. The provider is identifier-first and answers the
  credentials with a document that only asks a security question, so the flow is not
  finished. \<open>Authenticate\<close> returns a response and no error, and the response's status
  is the empty string: \<open>handleRemediation\<close> assigns a status on success only, and
  \<open>AuthStatusUnhandled\<close> is assigned nowhere.
\<close>

theorem Authenticate_unfinished_status_empty:
  "(case fst (Authenticate (provider start_doc (Inr question_doc) True) example_client
                \<lparr>Username = ''ada'', Password = ''pw''\<rparr> new_world) of
      Inr (Some a) \<Rightarrow> authenticationStatus a = [] \<and> authenticationStatus a \<noteq> AuthStatusUnhandled
    | _ \<Rightarrow> False)"
  by (simp add: Authenticate_def Interact_provider Introspect_provider start_doc_facts
      handleIdentityFirst_def Proceed_provider question_doc_facts handleRemediation_def
      question_doc_not_success AuthStatusUnhandled_def IsIdentityFirst_provider)


section \<open>Properties of the interaction\<close>

lemma EncodeToString_examples:
  "EncodeToString (map of_char ''foo'') = ''Zm9v''"
  "EncodeToString (map of_char ''fo'') = ''Zm8''"
  "EncodeToString (map of_char ''f'') = ''Zg''"
  "EncodeToString [0xfb, 0xff] = ''-_8''"
  by (simp_all add: enc6_def encodeURL_def Let_def)

lemma length_encodeURL: "length encodeURL = 64"
  by (simp add: encodeURL_def)

lemma enc6_alphabet: "enc6 v \<in> set encodeURL"
  unfolding enc6_def by (rule nth_mem) (simp add: length_encodeURL)

lemma EncodeToString_alphabet: "set (EncodeToString bs) \<subseteq> set encodeURL"
  by (induction bs rule: EncodeToString.induct) (simp_all add: Let_def enc6_alphabet)

lemma EncodeToString_length: "length (EncodeToString bs) = (length bs * 8 + 5) div 6"
  by (induction bs rule: EncodeToString.induct) (simp_all add: Let_def)

lemma EncodeToString_no_padding: "CHR ''='' \<notin> set (EncodeToString bs)"
proof -
  have "CHR ''='' \<notin> set encodeURL" by (simp add: encodeURL_def)
  with EncodeToString_alphabet show ?thesis by blast
qed

lemma interact_data_fields:
  "interact_data c ch st ''code_challenge'' = Some ch"
  "interact_data c ch st ''code_challenge_method'' = Some ''S256''"
  "interact_data c ch st ''state'' = Some st"
  by (simp_all add: interact_data_def)

text \<open>
  Claim C8. Every call of \<open>Interact\<close> either fails before anything is sent (the random
  source or the construction of the request failed), or hands exactly one request to the
  transport. In that case the code verifier is the unpadded URL-safe base64 text of the 86
  bytes of the first random read (115 characters of the URL-safe alphabet), the state is
  that of the 16 bytes of the second read (22 characters), the form sent has the state,
  the method S256 and, as code challenge, the unpadded URL-safe base64 text of the SHA-256
  digest of the verifier's characters; and a context that is returned holds this verifier
  and this state.
\<close>

theorem Interact_pkce:
  assumes "Interact E c w = (res, w')"
  shows "(\<exists>err. res = Inl err \<and> calls w' = calls w) \<or>
         (\<exists>f g req data verifier st.
            crand_Read E (rand_reads w) = Inr f \<and>
            crand_Read E (Suc (rand_reads w)) = Inr g \<and>
            verifier = EncodeToString (map f [0..<86]) \<and>
            st = EncodeToString (map g [0..<16]) \<and>
            length verifier = 115 \<and> set verifier \<subseteq> set encodeURL \<and>
            length st = 22 \<and> set st \<subseteq> set encodeURL \<and>
            calls w' = calls w @ [DoCall req] \<and>
            req_body req = FormBody data \<and>
            data ''code_challenge'' = Some (EncodeToString (sha256_Sum E (map of_char verifier))) \<and>
            data ''code_challenge_method'' = Some ''S256'' \<and>
            data ''state'' = Some st \<and>
            (\<forall>ictx. res = Inr ictx \<longrightarrow> codeVerifier ictx = verifier \<and> state ictx = st))"
proof (cases "crand_Read E (rand_reads w)")
  case (Inl e)
  with assms show ?thesis
    by (auto simp: Interact_def createCodeVerifier_def crand_Read_buf_def)
next
  case f: (Inr f)
  show ?thesis
  proof (cases "crand_Read E (Suc (rand_reads w))")
    case (Inl e)
    with assms f show ?thesis
      by (auto simp: Interact_def createCodeVerifier_def createState_def crand_Read_buf_def)
  next
    case g: (Inr g)
    let ?v = "EncodeToString (map f [0..<86])"
    let ?s = "EncodeToString (map g [0..<16])"
    let ?data = "interact_data c (EncodeToString (sha256_Sum E (map of_char ?v))) ?s"
    have lens: "length ?v = 115" "length ?s = 22"
      by (simp_all add: EncodeToString_length)
    show ?thesis
    proof (cases "sha256_Write E (map of_char ?v) = None \<and>
                  NewRequest_error E ''POST'' (Issuer (config c) @ ''/v1/interact'') = None")
      case False
      with assms f g have "(\<exists>err. res = Inl err) \<and> calls w' = calls w"
        by (auto simp: Interact_def createCodeVerifier_def createState_def crand_Read_buf_def
            NewRequest_def Let_def CodeVerifier_def
            simp del: EncodeToString.simps upt_rec_numeral split: option.splits)
      then show ?thesis by blast
    next
      case True
      then have None: "sha256_Write E (map of_char ?v) = None"
          "NewRequest_error E ''POST'' (Issuer (config c) @ ''/v1/interact'') = None"
        by simp_all
      define req where "req = WithOktaUserAgent E
                  (Header_Add \<lparr>req_method = ''POST'', req_url = Issuer (config c) @ ''/v1/interact'',
                               req_header = [], req_body = FormBody ?data\<rparr>
                     ''Content-Type'' ''application/x-www-form-urlencoded'')
                  packageVersion"
      have body: "req_body req = FormBody ?data"
        by (simp add: req_def WithOktaUserAgent_def Header_Add_def)
      from assms f g None have
        "calls w' = calls w @ [DoCall req] \<and>
         (\<forall>ictx. res = Inr ictx \<longrightarrow> codeVerifier ictx = ?v \<and> state ictx = ?s)"
        by (auto simp: Interact_def createCodeVerifier_def createState_def crand_Read_buf_def
            NewRequest_def Let_def Do_def req_def CodeVerifier_def State_def
            simp del: EncodeToString.simps upt_rec_numeral
            split: sum.splits)
      with f g lens body show ?thesis
        using EncodeToString_alphabet [of "map f [0..<86]"] EncodeToString_alphabet [of "map g [0..<16]"]
          interact_data_fields [of c "EncodeToString (sha256_Sum E (map of_char ?v))" ?s]
        by blast
    qed
  qed
qed

theorem Interact_pkce_witness:
  "Interact (provider start_doc (Inr question_doc) True) example_client new_world
     = (Inr interacted_context, interacted_world) \<and>
   length (codeVerifier interacted_context) = 115 \<and>
   length (state interacted_context) = 22 \<and>
   set (codeVerifier interacted_context) \<subseteq> set encodeURL \<and>
   (\<exists>req data. calls interacted_world = calls new_world @ [DoCall req] \<and>
      req_body req = FormBody data \<and>
      data ''code_challenge''
        = Some (EncodeToString (example_digest (map of_char (codeVerifier interacted_context)))))"
proof -
  let ?E = "provider start_doc (Inr question_doc) True"
  have sha: "sha256_Sum ?E = example_digest" by (simp add: provider_def)
  from Interact_pkce [OF Interact_provider [of start_doc "Inr question_doc" True]]
  obtain req data verifier st where
    "length verifier = 115" "length st = 22" "set verifier \<subseteq> set encodeURL"
    "calls interacted_world = calls new_world @ [DoCall req]" "req_body req = FormBody data"
    "data ''code_challenge'' = Some (EncodeToString (sha256_Sum ?E (map of_char verifier)))"
    "codeVerifier interacted_context = verifier" "state interacted_context = st"
    by auto
  then show ?thesis
    using Interact_provider [of start_doc "Inr question_doc" True] sha by auto
qed


end
